theory Spec2Isabelle
  imports Main "HOL-Library.Multiset"
begin

section \<open>Data model (src/types.ts)\<close>

text \<open>
  \<^verbatim>\<open>DocumentData\<close> of src/types.ts. The identifier field \<^verbatim>\<open>id\<close> is called \<open>doc_id\<close>
  here (\<open>id\<close> is HOL's identity function). \<^verbatim>\<open>status\<close> is a string at run time: the
  union type of its four literals is erased, and the fallback service returns parsed JSON
  under a cast. The constant field \<^verbatim>\<open>type\<close> and the numeric payload (\<^verbatim>\<open>items\<close>,
  \<^verbatim>\<open>totalAmount\<close>: floating point numbers that no function below reads) are left out.
\<close>

record DocumentData =
  doc_id :: string
  department :: string
  purpose :: string
  date :: string
  deliverOn :: string
  status :: string
  preparedBy :: string
  notedBy :: string
  approvedBy :: string
  receivedBy :: string
  checkedBy :: string

text \<open>The four literals of the \<^verbatim>\<open>status\<close> union type.\<close>

definition statusValues :: "string list" where
  "statusValues = [''Approved'', ''Pending'', ''Processing'', ''For signing'']"

text \<open>
  What a rejected promise or a thrown exception carries. The code never inspects the
  value: it logs it and goes on.
\<close>

datatype js_error = ConnectivityError | ReferenceError

text \<open>
  The observable side effects of the component, in the order the code issues them:
  the fetch of the records, the notification sound, a desktop notification (title, body,
  tag), the three kinds of toast, a line on the error console, and the remote status
  update (identifier, status).
\<close>

datatype effect =
    FetchRecords
  | PlayNotificationSound
  | DesktopNotification string string string
  | ToastSuccess string
  | ToastPlain string
  | ToastError string
  | ConsoleError string
  | RemoteUpdate string string

text \<open>\<^verbatim>\<open>Notification.permission\<close>; the API itself may be absent from the browser.\<close>

datatype NotificationPermission = Granted | Denied | Default

text \<open>
  The state of the \<^verbatim>\<open>App\<close> component of src/App.tsx that the synchronisation code reads
  and writes: the \<^verbatim>\<open>useState\<close> cells and the ref \<^verbatim>\<open>isSyncingRef\<close>. The ref
  \<^verbatim>\<open>docsRef\<close> is copied from \<^verbatim>\<open>documents\<close> after every render (lines 87-90), so
  \<^verbatim>\<open>docsRef.current\<close> is read as \<open>documents\<close>. Times are milliseconds.
\<close>

record AppState =
  documents :: "DocumentData list"
  selectedDocId :: "string option"
  isLoading :: bool
  isSyncing :: bool
  isSyncingRef :: bool
  error :: "string option"
  lastSync :: nat
  processedDocIds :: "string set"
  newDocIds :: "string set"

text \<open>
  The state at mount (lines 33-65): no documents, the two tag sets as read from local
  storage (an unreadable entry gives the empty set before this point).
\<close>

definition initialState :: "nat \<Rightarrow> string set \<Rightarrow> string set \<Rightarrow> AppState" where
  "initialState t0 savedProcessed savedNew =
     \<lparr>documents = [], selectedDocId = None, isLoading = True, isSyncing = False,
      isSyncingRef = False, error = None, lastSync = t0,
      processedDocIds = savedProcessed, newDocIds = savedNew\<rparr>"

section \<open>The diff of a poll cycle (src/App.tsx, lines 153-160)\<close>

text \<open>
  \<^verbatim>\<open>new Map(currentDocs.map(d => [d.id, d]))\<close>: entries are set in order, so a later
  document with the same identifier replaces an earlier one.
\<close>

definition mapSet :: "(string \<rightharpoonup> DocumentData) \<Rightarrow> DocumentData \<Rightarrow> (string \<rightharpoonup> DocumentData)" where
  "mapSet m d = m(doc_id d \<mapsto> d)"

definition prevDocsMap :: "DocumentData list \<Rightarrow> (string \<rightharpoonup> DocumentData)" where
  "prevDocsMap currentDocs = foldl mapSet Map.empty currentDocs"

text \<open>\<^verbatim>\<open>newDocs.filter(d => !prevDocsMap.has(d.id))\<close>\<close>

definition newItems :: "DocumentData list \<Rightarrow> DocumentData list \<Rightarrow> DocumentData list" where
  "newItems currentDocs newDocs =
     filter (\<lambda>d. prevDocsMap currentDocs (doc_id d) = None) newDocs"

text \<open>
  \<^verbatim>\<open>newDocs.filter(d => { const prev = prevDocsMap.get(d.id);
  return prev && prev.status !== d.status; })\<close>
\<close>

definition statusChanges :: "DocumentData list \<Rightarrow> DocumentData list \<Rightarrow> DocumentData list" where
  "statusChanges currentDocs newDocs =
     filter (\<lambda>d. case prevDocsMap currentDocs (doc_id d) of
                   None \<Rightarrow> False
                 | Some prev \<Rightarrow> status prev \<noteq> status d) newDocs"

text \<open>A document with the given identifier, date and status, used in the examples.\<close>

definition exampleDoc :: "string \<Rightarrow> string \<Rightarrow> string \<Rightarrow> DocumentData" where
  "exampleDoc i dt st =
     \<lparr>doc_id = i, department = ''Kitchen'', purpose = '''', date = dt, deliverOn = '''',
      status = st, preparedBy = '''', notedBy = '''', approvedBy = '''', receivedBy = '''',
      checkedBy = ''''\<rparr>"

section \<open>Notification content (src/App.tsx, lines 177-213)\<close>

text \<open>The decimal rendering of \<^verbatim>\<open>newItems.length\<close> inside a template string.\<close>

fun string_of_nat :: "nat \<Rightarrow> string" where
  "string_of_nat n =
     (if n < 10 then [''0123456789'' ! n]
      else string_of_nat (n div 10) @ [''0123456789'' ! (n mod 10)])"

declare string_of_nat.simps [simp del]

text \<open>
  The desktop notification for the arrived records (lines 179-185); it is built only when
  \<^verbatim>\<open>newItems.length > 0\<close>, so \<^verbatim>\<open>newItems[0]\<close> exists when the length is 1.
\<close>

definition newItemsNotification :: "DocumentData list \<Rightarrow> effect" where
  "newItemsNotification items =
     DesktopNotification
       (if length items = 1 then ''New Requisition'' else ''New Requisitions'')
       (if length items = 1
        then ''Requisition #'' @ doc_id (hd items) @ '' from '' @ department (hd items)
             @ '' received.''
        else string_of_nat (length items) @ '' new requisitions have been queued.'')
       ''new-items''"

text \<open>The desktop notification for one status change (lines 189-193).\<close>

definition statusNotification :: "DocumentData \<Rightarrow> effect" where
  "statusNotification doc =
     DesktopNotification
       (''Status Updated: #'' @ doc_id doc)
       (''Requisition for '' @ department doc @ '' is now '' @ status doc @ ''.'')
       (''status-'' @ doc_id doc)"

text \<open>The toast for the arrived records (lines 198-203).\<close>

definition newItemsToast :: "DocumentData list \<Rightarrow> effect" where
  "newItemsToast items =
     ToastSuccess
       (if length items = 1
        then ''New Requisition #'' @ doc_id (hd items) @ '' received!''
        else string_of_nat (length items) @ '' new requisitions received!'')"

text \<open>The toast for one status change (lines 207-212).\<close>

definition statusToast :: "DocumentData \<Rightarrow> effect" where
  "statusToast doc = ToastSuccess (''Requisition #'' @ doc_id doc @ '' is now '' @ status doc)"

section \<open>The initial load (src/App.tsx, lines 123-141)\<close>

text \<open>
  \<^verbatim>\<open>loadData\<close>, with the outcome of \<^verbatim>\<open>await fetchDatabaseRecords()\<close> and the clock as
  parameters. It neither diffs nor notifies, and it does not touch the guard of the poll
  cycle. \<^verbatim>\<open>!selectedDocId\<close> holds for \<^verbatim>\<open>null\<close> and for the empty string.
  \<^verbatim>\<open>console.error(err)\<close> prints the error with no message of its own.
\<close>

definition loadData :: "nat \<Rightarrow> js_error + DocumentData list \<Rightarrow> AppState \<Rightarrow> AppState \<times> effect list" where
  "loadData now result s =
     (let s0 = s\<lparr>isLoading := True, error := None\<rparr> in
      case result of
        Inr docs \<Rightarrow>
          (let s1 = s0\<lparr>documents := docs, lastSync := now\<rparr>;
               s2 = (case docs of
                       d # _ \<Rightarrow>
                         if selectedDocId s = None \<or> selectedDocId s = Some []
                         then s1\<lparr>selectedDocId := Some (doc_id d)\<rparr> else s1
                     | [] \<Rightarrow> s1\<lparr>error := Some ''No records found in the database.''\<rparr>)
           in (s2\<lparr>isLoading := False\<rparr>, [FetchRecords]))
      | Inl err \<Rightarrow>
          (s0\<lparr>error := Some ''Unable to connect to Turso database. Please check your internet connection or database configuration.'',
              isLoading := False\<rparr>,
           [FetchRecords, ConsoleError []]))"

section \<open>The poll cycle (src/App.tsx, lines 143-224)\<close>

text \<open>
  \<^verbatim>\<open>checkForNewRecords\<close> up to its \<^verbatim>\<open>await\<close> (lines 144-148): with the guard set it
  returns at once; otherwise it sets the guard and issues the fetch.
\<close>

definition checkForNewRecords_start :: "AppState \<Rightarrow> AppState \<times> effect list" where
  "checkForNewRecords_start s =
     (if isSyncingRef s then (s, [])
      else (s\<lparr>isSyncingRef := True, isSyncing := True\<rparr>, [FetchRecords]))"

text \<open>The \<^verbatim>\<open>catch\<close> block (lines 217-219) and the \<^verbatim>\<open>finally\<close> block (lines 220-223).\<close>

definition syncCatch :: "bool \<Rightarrow> effect list" where
  "syncCatch isSilent =
     ConsoleError ''Background polling failed''
     # (if \<not> isSilent then [ToastError ''Sync failed. Check connection.''] else [])"

definition syncFinally :: "AppState \<Rightarrow> AppState" where
  "syncFinally s = s\<lparr>isSyncing := False, isSyncingRef := False\<rparr>"

text \<open>
  \<^verbatim>\<open>checkForNewRecords\<close> from the moment the fetch settles (lines 148-223). The
  parameters are the flag \<^verbatim>\<open>isSilent\<close>, the value of \<^verbatim>\<open>Notification.permission\<close>
  (\<open>None\<close> where the browser has no \<^verbatim>\<open>Notification\<close> object, so that reading it throws
  inside the \<^verbatim>\<open>try\<close> block), the clock and the outcome of the fetch. The previous
  snapshot is read after the fetch, from the state at that moment. Playing the sound
  never throws (lines 107-121), and the constructor of a desktop notification is taken
  to succeed.
\<close>

definition checkForNewRecords_finish ::
  "bool \<Rightarrow> NotificationPermission option \<Rightarrow> nat \<Rightarrow> js_error + DocumentData list
     \<Rightarrow> AppState \<Rightarrow> AppState \<times> effect list" where
  "checkForNewRecords_finish isSilent permission now result s =
     (case result of
        Inl err \<Rightarrow> (syncFinally s, syncCatch isSilent)
      | Inr newDocs \<Rightarrow>
          (let items = newItems (documents s) newDocs;
               changes = statusChanges (documents s) newDocs;
               s1 = s\<lparr>lastSync := now, documents := newDocs\<rparr>
           in if items \<noteq> [] \<or> changes \<noteq> [] then
                (let s2 = (if items \<noteq> []
                           then s1\<lparr>newDocIds := newDocIds s1 \<union> doc_id ` set items\<rparr>
                           else s1)
                 in case permission of
                      None \<Rightarrow> (syncFinally s2, PlayNotificationSound # syncCatch isSilent)
                    | Some p \<Rightarrow>
                        (syncFinally s2,
                         [PlayNotificationSound]
                         @ (if p = Granted
                            then (if items \<noteq> [] then [newItemsNotification items] else [])
                                 @ map statusNotification changes
                            else [])
                         @ (if items \<noteq> [] then [newItemsToast items] else [])
                         @ map statusToast changes))
              else if \<not> isSilent
                then (syncFinally s1, [ToastPlain ''Database is up to date''])
                else (syncFinally s1, [])))"

text \<open>A whole poll cycle, when nothing else runs between its two halves.\<close>

definition checkForNewRecords ::
  "bool \<Rightarrow> NotificationPermission option \<Rightarrow> nat \<Rightarrow> js_error + DocumentData list
     \<Rightarrow> AppState \<Rightarrow> AppState \<times> effect list" where
  "checkForNewRecords isSilent permission now result s =
     (if isSyncingRef s then (s, [])
      else (fst (checkForNewRecords_finish isSilent permission now result
                   (fst (checkForNewRecords_start s))),
            snd (checkForNewRecords_start s)
            @ snd (checkForNewRecords_finish isSilent permission now result
                     (fst (checkForNewRecords_start s)))))"

section \<open>Presentation ordering (src/App.tsx, lines 300-326)\<close>

definition isDocProcessed :: "string set \<Rightarrow> DocumentData \<Rightarrow> bool" where
  "isDocProcessed processed doc = (doc_id doc \<in> processed \<or> status doc = ''For signing'')"

text \<open>
  The comparator passed to \<^verbatim>\<open>sort\<close> (lines 307-325). Two built-ins of the JavaScript
  engine are parameters, because the language leaves them to the implementation:
  \<open>getTime s\<close> stands for \<^verbatim>\<open>new Date(s).getTime()\<close>, with \<open>None\<close> for \<^verbatim>\<open>NaN\<close> (an
  invalid date), and \<open>localeCompare a b\<close> for \<^verbatim>\<open>a.localeCompare(b)\<close>. The result
  \<open>None\<close> is \<^verbatim>\<open>NaN\<close>: \<^verbatim>\<open>dateA !== dateB\<close> holds as soon as one of the two is
  \<^verbatim>\<open>NaN\<close>, and the difference returned is then \<^verbatim>\<open>NaN\<close>. Times are whole milliseconds;
  only the sign of their difference is used.
\<close>

definition sidebarCompare ::
  "(string \<Rightarrow> int option) \<Rightarrow> (string \<Rightarrow> string \<Rightarrow> int) \<Rightarrow> string set
     \<Rightarrow> DocumentData \<Rightarrow> DocumentData \<Rightarrow> int option" where
  "sidebarCompare getTime localeCompare processed a b =
     (let aProcessed = isDocProcessed processed a;
          bProcessed = isDocProcessed processed b
      in if aProcessed \<and> \<not> bProcessed then Some 1
         else if \<not> aProcessed \<and> bProcessed then Some (- 1)
         else (case (getTime (date a), getTime (date b)) of
                 (Some dateA, Some dateB) \<Rightarrow>
                   if dateA \<noteq> dateB then Some (dateA - dateB)
                   else Some (localeCompare (doc_id a) (doc_id b))
               | _ \<Rightarrow> None))"

text \<open>
  \<^verbatim>\<open>Array.prototype.sort\<close> with a comparator. The language reads a \<^verbatim>\<open>NaN\<close> result of
  the comparator as \<open>+0\<close> and requires the sort to be stable. For a consistent comparator
  the result is then determined, and the insertion sort below computes it; for an
  inconsistent one the language leaves the order to the implementation, and the
  function below is one admissible outcome.
\<close>

definition sortCompare :: "('a \<Rightarrow> 'a \<Rightarrow> int option) \<Rightarrow> 'a \<Rightarrow> 'a \<Rightarrow> int" where
  "sortCompare comparefn x y = (case comparefn x y of None \<Rightarrow> 0 | Some v \<Rightarrow> v)"

fun sortInsert :: "('a \<Rightarrow> 'a \<Rightarrow> int option) \<Rightarrow> 'a \<Rightarrow> 'a list \<Rightarrow> 'a list" where
  "sortInsert comparefn x [] = [x]"
| "sortInsert comparefn x (y # ys) =
     (if sortCompare comparefn x y \<le> 0 then x # y # ys
      else y # sortInsert comparefn x ys)"

definition array_sort :: "('a \<Rightarrow> 'a \<Rightarrow> int option) \<Rightarrow> 'a list \<Rightarrow> 'a list" where
  "array_sort comparefn xs = foldr (sortInsert comparefn) xs []"

text \<open>\<^verbatim>\<open>sidebarDocuments\<close>: a sorted copy of \<^verbatim>\<open>documents\<close>.\<close>

definition sidebarDocuments ::
  "(string \<Rightarrow> int option) \<Rightarrow> (string \<Rightarrow> string \<Rightarrow> int) \<Rightarrow> string set
     \<Rightarrow> DocumentData list \<Rightarrow> DocumentData list" where
  "sidebarDocuments getTime localeCompare processed docs =
     array_sort (sidebarCompare getTime localeCompare processed) docs"

subsection \<open>The specification's ordering rule\<close>

text \<open>
  The rule in the specification's words, to compare with the code: \<open>a\<close> may stand before
  \<open>b\<close> when \<open>a\<close> is not processed and \<open>b\<close> is, or when both are on the same side and
  either \<open>a\<close>'s date is earlier, or the dates are equal and \<open>a\<close>'s identifier is not after
  \<open>b\<close>'s in the collation order.
\<close>

definition specBefore ::
  "(string \<Rightarrow> int option) \<Rightarrow> (string \<Rightarrow> string \<Rightarrow> int) \<Rightarrow> string set
     \<Rightarrow> DocumentData \<Rightarrow> DocumentData \<Rightarrow> bool" where
  "specBefore getTime localeCompare processed a b =
     ((\<not> isDocProcessed processed a \<and> isDocProcessed processed b)
      \<or> (isDocProcessed processed a = isDocProcessed processed b
          \<and> (case (getTime (date a), getTime (date b)) of
                (Some dateA, Some dateB) \<Rightarrow>
                  dateA < dateB \<or> (dateA = dateB \<and> localeCompare (doc_id a) (doc_id b) \<le> 0)
              | _ \<Rightarrow> False)))"

text \<open>
  What the sort needs of the engine's collation: exchanging the arguments exchanges the
  sign, and the order is transitive. Distinct strings may still compare equal.
\<close>

definition consistentCollation :: "(string \<Rightarrow> string \<Rightarrow> int) \<Rightarrow> bool" where
  "consistentCollation localeCompare =
     ((\<forall>a b. (localeCompare a b < 0) = (0 < localeCompare b a))
      \<and> (\<forall>a b c. localeCompare a b \<le> 0 \<and> localeCompare b c \<le> 0 \<longrightarrow> localeCompare a c \<le> 0))"

subsection \<open>One engine, for the examples\<close>

text \<open>
  The date-only form \<^verbatim>\<open>YYYY-MM-DD\<close> of the language's date-time string format (month
  01 to 12, day 01 to 31): midnight UTC of that day, in milliseconds since 1970-01-01.
  Every engine reads a calendar date in this form so, and every engine gives \<^verbatim>\<open>NaN\<close>
  for the empty string. Other strings, which engines read by rules of their own, are
  \<open>None\<close> here; the examples use none of them.
\<close>

definition digitValue :: "char \<Rightarrow> nat option" where
  "digitValue c =
     (if (48::nat) \<le> of_char c \<and> of_char c \<le> (57::nat) then Some (of_char c - 48) else None)"

fun decimalValue :: "nat \<Rightarrow> string \<Rightarrow> nat option" where
  "decimalValue acc [] = Some acc"
| "decimalValue acc (c # cs) =
     (case digitValue c of None \<Rightarrow> None | Some v \<Rightarrow> decimalValue (10 * acc + v) cs)"

definition daysFromCivil :: "int \<Rightarrow> int \<Rightarrow> int \<Rightarrow> int" where
  "daysFromCivil y m d =
     (let y1 = (if m \<le> 2 then y - 1 else y);
          era = y1 div 400;
          yoe = y1 - era * 400;
          doy = (153 * (if m > 2 then m - 3 else m + 9) + 2) div 5 + d - 1;
          doe = yoe * 365 + yoe div 4 - yoe div 100 + doy
      in era * 146097 + doe - 719468)"

definition isoDateTime :: "string \<Rightarrow> int option" where
  "isoDateTime s =
     (if length s = 10 \<and> s ! 4 = CHR ''-'' \<and> s ! 7 = CHR ''-'' then
        (case (decimalValue 0 (take 4 s), decimalValue 0 (take 2 (drop 5 s)),
               decimalValue 0 (drop 8 s)) of
           (Some y, Some m, Some d) \<Rightarrow>
             if 1 \<le> m \<and> m \<le> 12 \<and> 1 \<le> d \<and> d \<le> 31
             then Some (daysFromCivil (int y) (int m) (int d) * 86400000)
             else None
         | _ \<Rightarrow> None)
      else None)"

text \<open>
  Comparison by code units, with which every collation agrees on identifiers made of
  upper-case letters or of digits alone.
\<close>

fun codeUnitCompare :: "string \<Rightarrow> string \<Rightarrow> int" where
  "codeUnitCompare [] [] = 0"
| "codeUnitCompare [] (y # ys) = - 1"
| "codeUnitCompare (x # xs) [] = 1"
| "codeUnitCompare (x # xs) (y # ys) =
     (if (of_char x :: nat) < of_char y then - 1
      else if (of_char y :: nat) < of_char x then 1
      else codeUnitCompare xs ys)"

section \<open>Status transition (src/App.tsx, lines 332-347; dbService, lines 22-32)\<close>

text \<open>
  \<^verbatim>\<open>updateRequisitionStatus\<close> of the database service: the parameter is the outcome of
  its \<^verbatim>\<open>try\<close> block (the remote \<^verbatim>\<open>UPDATE\<close>). A failure is logged and the promise
  still resolves.
\<close>

definition updateRequisitionStatus ::
  "string \<Rightarrow> string \<Rightarrow> js_error + unit \<Rightarrow> (js_error + unit) \<times> effect list" where
  "updateRequisitionStatus i st executed =
     (case executed of
        Inr u \<Rightarrow> (Inr (), [RemoteUpdate i st])
      | Inl err \<Rightarrow> (Inr (), [RemoteUpdate i st, ConsoleError ''Failed to update status in DB:'']))"

text \<open>
  \<^verbatim>\<open>updateStatusToSigning\<close>: the two local updates, then the awaited remote call, whose
  outcome is the outcome of the whole function.
\<close>

definition updateStatusToSigning ::
  "string \<Rightarrow> js_error + unit \<Rightarrow> AppState \<Rightarrow> (js_error + unit) \<times> AppState \<times> effect list" where
  "updateStatusToSigning i executed s =
     (let s1 = s\<lparr>documents :=
                   map (\<lambda>d. if doc_id d = i then d\<lparr>status := ''For signing''\<rparr> else d)
                     (documents s)\<rparr>;
          s2 = s1\<lparr>processedDocIds := insert i (processedDocIds s1)\<rparr>
      in (fst (updateRequisitionStatus i ''For signing'' executed), s2,
          snd (updateRequisitionStatus i ''For signing'' executed)))"

section \<open>Mapping database rows (dbService, lines 34-126)\<close>

text \<open>
  A column value of a row, by what the mapping observes of it: whether it is a string
  and which, and otherwise (a number, a big integer, a blob) whether it is truthy and how
  \<^verbatim>\<open>String\<close> renders it. A row maps column names to values; a column the row does
  not have reads as \<^verbatim>\<open>undefined\<close>.
\<close>

datatype sql_value = Undefined | Null | Text string | Other bool string

type_synonym row = "string \<Rightarrow> sql_value"

definition js_truthy :: "sql_value \<Rightarrow> bool" where
  "js_truthy v = (case v of Undefined \<Rightarrow> False | Null \<Rightarrow> False | Text s \<Rightarrow> s \<noteq> []
                  | Other truthy rendering \<Rightarrow> truthy)"

definition js_String :: "sql_value \<Rightarrow> string" where
  "js_String v = (case v of Undefined \<Rightarrow> ''undefined'' | Null \<Rightarrow> ''null'' | Text s \<Rightarrow> s
                  | Other truthy rendering \<Rightarrow> rendering)"

text \<open>\<^verbatim>\<open>a || b\<close>\<close>

definition js_or :: "sql_value \<Rightarrow> sql_value \<Rightarrow> sql_value" where
  "js_or a b = (if js_truthy a then a else b)"

text \<open>\<^verbatim>\<open>const getStr = (val: any) => val ? String(val) : ""\<close>\<close>

definition getStr :: "sql_value \<Rightarrow> string" where
  "getStr val = (if js_truthy val then js_String val else [])"

text \<open>
  The body of the loop over the rows (lines 55-107), without the items and the total.
  \<^verbatim>\<open>includes\<close> compares strictly, so only a string equal to one of the four literals
  is kept.
\<close>

definition mapRow :: "row \<Rightarrow> DocumentData" where
  "mapRow r =
     \<lparr>doc_id = js_String (r ''id''),
      department = getStr (r ''department''),
      purpose = getStr (r ''purpose''),
      date = getStr (r ''date''),
      deliverOn = getStr (js_or (r ''deliver_on'') (r ''deliverOn'')),
      status = (case r ''status'' of
                  Text s \<Rightarrow> if s \<in> set statusValues then s else ''Pending''
                | _ \<Rightarrow> ''Pending''),
      preparedBy = getStr (js_or (js_or (r ''requester'') (r ''prepared_by'')) (r ''preparedBy'')),
      notedBy = getStr (js_or (r ''noted_by'') (r ''notedBy'')),
      approvedBy = getStr (js_or (r ''approved_by'') (r ''approvedBy'')),
      receivedBy = getStr (js_or (r ''received_by'') (r ''receivedBy'')),
      checkedBy = getStr (js_or (r ''checked_by'') (r ''checkedBy''))\<rparr>"

text \<open>
  \<^verbatim>\<open>fetchDatabaseRecords\<close>: the parameters are the outcome of the query and the outcome
  of the fallback service \<^verbatim>\<open>fetchMockDatabaseRecords\<close>, which is asked only when the
  query failed, and whose records are returned as they are. When both fail, the error of
  the query is thrown.
\<close>

definition fetchDatabaseRecords ::
  "js_error + row list \<Rightarrow> js_error + DocumentData list \<Rightarrow> js_error + DocumentData list" where
  "fetchDatabaseRecords queried mock =
     (case queried of
        Inr rows \<Rightarrow> if rows = [] then Inr [] else Inr (map mapRow rows)
      | Inl err \<Rightarrow>
          (case mock of
             Inr docs \<Rightarrow> Inr docs
           | Inl fallbackError \<Rightarrow> Inl err))"

section \<open>A state for the examples\<close>

text \<open>The state after an initial load that returned two records.\<close>

definition exampleState :: AppState where
  "exampleState =
     fst (loadData 1 (Inr [exampleDoc ''1'' ''2024-01-01'' ''Pending'',
                           exampleDoc ''2'' ''2024-01-02'' ''Approved''])
            (initialState 0 {} {}))"

section \<open>Properties of the diff\<close>

lemma prevDocsMap_foldl_notin:
  "k \<notin> doc_id ` set docs \<Longrightarrow> foldl mapSet m0 docs k = m0 k"
  by (induction docs arbitrary: m0) (auto simp: mapSet_def)

lemma prevDocsMap_foldl_None:
  "(foldl mapSet m0 docs k = None) = (m0 k = None \<and> k \<notin> doc_id ` set docs)"
  by (induction docs arbitrary: m0) (auto simp: mapSet_def)

lemma prevDocsMap_None: "(prevDocsMap docs k = None) = (k \<notin> doc_id ` set docs)"
  by (simp add: prevDocsMap_def prevDocsMap_foldl_None)

lemma prevDocsMap_foldl_distinct:
  "distinct (map doc_id docs) \<Longrightarrow> p \<in> set docs \<Longrightarrow> foldl mapSet m0 docs (doc_id p) = Some p"
proof (induction docs arbitrary: m0)
  case Nil
  then show ?case by simp
next
  case (Cons d docs)
  show ?case
  proof (cases "p \<in> set docs")
    case True
    with Cons show ?thesis by simp
  next
    case False
    with Cons.prems have pd: "p = d" by simp
    from Cons.prems have "doc_id d \<notin> doc_id ` set docs" by simp
    then have "foldl mapSet (mapSet m0 d) docs (doc_id d) = mapSet m0 d (doc_id d)"
      by (rule prevDocsMap_foldl_notin)
    moreover have "mapSet m0 d (doc_id d) = Some d"
      by (simp add: mapSet_def)
    ultimately show ?thesis
      by (simp add: pd)
  qed
qed

lemma prevDocsMap_Some_mem:
  "foldl mapSet m0 docs k = Some p \<Longrightarrow> m0 k = Some p \<or> (p \<in> set docs \<and> doc_id p = k)"
proof (induction docs arbitrary: m0)
  case Nil
  then show ?case by simp
next
  case (Cons d docs)
  from Cons.prems have "foldl mapSet (mapSet m0 d) docs k = Some p"
    by simp
  from Cons.IH [OF this] show ?case
    by (auto simp: mapSet_def split: if_splits)
qed

lemma prevDocsMap_distinct:
  "distinct (map doc_id docs) \<Longrightarrow>
     (prevDocsMap docs k = Some p) = (p \<in> set docs \<and> doc_id p = k)"
  unfolding prevDocsMap_def
  using prevDocsMap_foldl_distinct [of docs p Map.empty]
        prevDocsMap_Some_mem [of Map.empty docs k p]
  by auto

text \<open>
  Claim C2. With a previous snapshot whose identifiers are unique, the diff of a poll
  cycle computes: \<open>newItems\<close> (arrived) is the records of the next snapshot whose
  identifier is absent from the previous one, so its identifiers are exactly those present
  in the next snapshot and absent from the previous one; \<open>statusChanges\<close> is the records
  of the next snapshot (the post-change values) for which the previous snapshot holds a
  record of the same identifier and a different status. For previous =
  \<^verbatim>\<open>[{id:"1",status:"Pending"}]\<close> and next =
  \<^verbatim>\<open>[{id:"1",status:"Approved"},{id:"2",status:"Pending"}]\<close>, arrived is \<^verbatim>\<open>["2"]\<close> and
  statusChanged is \<^verbatim>\<open>[{id:"1",status:"Approved"}]\<close>.
\<close>

theorem diff_correct:
  assumes "distinct (map doc_id currentDocs)"
  shows "newItems currentDocs newDocs =
           filter (\<lambda>d. doc_id d \<notin> doc_id ` set currentDocs) newDocs
       \<and> doc_id ` set (newItems currentDocs newDocs) =
           doc_id ` set newDocs - doc_id ` set currentDocs
       \<and> statusChanges currentDocs newDocs =
           filter (\<lambda>d. \<exists>p \<in> set currentDocs. doc_id p = doc_id d \<and> status p \<noteq> status d) newDocs
       \<and> map doc_id (newItems [exampleDoc ''1'' dt ''Pending'']
            [exampleDoc ''1'' dt ''Approved'', exampleDoc ''2'' dt ''Pending'']) = [''2'']
       \<and> statusChanges [exampleDoc ''1'' dt ''Pending'']
            [exampleDoc ''1'' dt ''Approved'', exampleDoc ''2'' dt ''Pending'']
           = [exampleDoc ''1'' dt ''Approved'']"
proof -
  have a: "newItems currentDocs newDocs =
             filter (\<lambda>d. doc_id d \<notin> doc_id ` set currentDocs) newDocs"
    by (simp add: newItems_def prevDocsMap_None)
  have b: "doc_id ` set (newItems currentDocs newDocs) =
             doc_id ` set newDocs - doc_id ` set currentDocs"
    unfolding a by auto
  have key: "(case prevDocsMap currentDocs (doc_id d) of None \<Rightarrow> False
               | Some prev \<Rightarrow> status prev \<noteq> status d) =
             (\<exists>p \<in> set currentDocs. doc_id p = doc_id d \<and> status p \<noteq> status d)" for d
  proof -
    show ?thesis
    proof (cases "prevDocsMap currentDocs (doc_id d)")
      case None
      then have "doc_id d \<notin> doc_id ` set currentDocs"
        by (simp add: prevDocsMap_None)
      with None show ?thesis by force
    next
      case (Some prev)
      have eq: "(p \<in> set currentDocs \<and> doc_id p = doc_id d) = (p = prev)" for p
        using prevDocsMap_distinct [OF assms, of "doc_id d" p] by (auto simp: Some)
      have "(\<exists>p \<in> set currentDocs. doc_id p = doc_id d \<and> status p \<noteq> status d) =
            (\<exists>p. (p \<in> set currentDocs \<and> doc_id p = doc_id d) \<and> status p \<noteq> status d)"
        by blast
      also have "\<dots> = (status prev \<noteq> status d)"
        unfolding eq by simp
      finally show ?thesis by (simp add: Some)
    qed
  qed
  have c: "statusChanges currentDocs newDocs =
      filter (\<lambda>d. \<exists>p \<in> set currentDocs. doc_id p = doc_id d \<and> status p \<noteq> status d) newDocs"
    unfolding statusChanges_def key ..
  have d: "map doc_id (newItems [exampleDoc ''1'' dt ''Pending'']
            [exampleDoc ''1'' dt ''Approved'', exampleDoc ''2'' dt ''Pending'']) = [''2'']"
    by (simp add: newItems_def prevDocsMap_def mapSet_def exampleDoc_def)
  have e: "statusChanges [exampleDoc ''1'' dt ''Pending'']
            [exampleDoc ''1'' dt ''Approved'', exampleDoc ''2'' dt ''Pending'']
           = [exampleDoc ''1'' dt ''Approved'']"
    by (simp add: statusChanges_def prevDocsMap_def mapSet_def exampleDoc_def)
  from a b c d e show ?thesis by blast
qed

theorem diff_correct_witness:
  "distinct (map doc_id [exampleDoc ''7'' ''2024-01-01'' ''Pending'',
                         exampleDoc ''8'' ''2024-01-01'' ''Approved''])
   \<and> newItems [exampleDoc ''7'' ''2024-01-01'' ''Pending'',
                exampleDoc ''8'' ''2024-01-01'' ''Approved'']
               [exampleDoc ''9'' ''2024-01-02'' ''Pending'',
                exampleDoc ''8'' ''2024-01-01'' ''Approved'',
                exampleDoc ''7'' ''2024-01-01'' ''Processing'']
       = [exampleDoc ''9'' ''2024-01-02'' ''Pending'']
   \<and> statusChanges [exampleDoc ''7'' ''2024-01-01'' ''Pending'',
                     exampleDoc ''8'' ''2024-01-01'' ''Approved'']
               [exampleDoc ''9'' ''2024-01-02'' ''Pending'',
                exampleDoc ''8'' ''2024-01-01'' ''Approved'',
                exampleDoc ''7'' ''2024-01-01'' ''Processing'']
       = [exampleDoc ''7'' ''2024-01-01'' ''Processing'']"
  using diff_correct [of "[exampleDoc ''7'' ''2024-01-01'' ''Pending'',
                           exampleDoc ''8'' ''2024-01-01'' ''Approved'']"
                         "[exampleDoc ''9'' ''2024-01-02'' ''Pending'',
                           exampleDoc ''8'' ''2024-01-01'' ''Approved'',
                           exampleDoc ''7'' ''2024-01-01'' ''Processing'']"]
  by (simp add: exampleDoc_def)

section \<open>Properties of the initial load and of the poll cycle\<close>

lemma exampleState_fields:
  "documents exampleState = [exampleDoc ''1'' ''2024-01-01'' ''Pending'',
                             exampleDoc ''2'' ''2024-01-02'' ''Approved'']"
  "processedDocIds exampleState = {}"
  "newDocIds exampleState = {}"
  "isSyncingRef exampleState = False"
  "lastSync exampleState = 1"
  by (simp_all add: exampleState_def loadData_def initialState_def Let_def)

lemma exampleDoc_fields:
  "doc_id (exampleDoc i dt st) = i"
  "status (exampleDoc i dt st) = st"
  "date (exampleDoc i dt st) = dt"
  "department (exampleDoc i dt st) = ''Kitchen''"
  "(exampleDoc i dt st)\<lparr>status := st'\<rparr> = exampleDoc i dt st'"
  by (simp_all add: exampleDoc_def)

text \<open>
  Claim C1, as the code has it. The initial load (\<^verbatim>\<open>loadData\<close>), whenever its fetch
  succeeds and in whatever state, issues nothing but the fetch: no notification sound, no
  desktop notification, no toast; it adds no identifier to the unseen set, and it
  installs the fetched records as the snapshot with the time of the fetch. So a run in
  which the first fetch to succeed is the initial load announces none of its records.
  A poll diffs against the snapshot of the moment: while that is still empty, every
  record it fetches counts as arrived, the sound is played and the identifiers enter the
  unseen set.
\<close>

theorem initial_load_silent:
  "snd (loadData now (Inr docs) s) = [FetchRecords]
   \<and> newDocIds (fst (loadData now (Inr docs) s)) = newDocIds s
   \<and> documents (fst (loadData now (Inr docs) s)) = docs
   \<and> lastSync (fst (loadData now (Inr docs) s)) = now
   \<and> newItems [] newDocs = newDocs
   \<and> (\<not> isSyncingRef s \<and> documents s = [] \<and> newDocs \<noteq> [] \<longrightarrow>
        PlayNotificationSound
          \<in> set (snd (checkForNewRecords isSilent permission now (Inr newDocs) s))
        \<and> newDocIds (fst (checkForNewRecords isSilent permission now (Inr newDocs) s))
            = newDocIds s \<union> doc_id ` set newDocs)"
proof (intro conjI impI)
  show "snd (loadData now (Inr docs) s) = [FetchRecords]"
    by (simp add: loadData_def Let_def split: list.split)
  show "newDocIds (fst (loadData now (Inr docs) s)) = newDocIds s"
    by (simp add: loadData_def Let_def split: list.split)
  show "documents (fst (loadData now (Inr docs) s)) = docs"
    by (simp add: loadData_def Let_def split: list.split)
  show "lastSync (fst (loadData now (Inr docs) s)) = now"
    by (simp add: loadData_def Let_def split: list.split)
  show n: "newItems [] newDocs = newDocs"
    by (simp add: newItems_def prevDocsMap_def)
  assume a: "\<not> isSyncingRef s \<and> documents s = [] \<and> newDocs \<noteq> []"
  then have st: "documents (fst (checkForNewRecords_start s)) = []"
    and nd: "newDocIds (fst (checkForNewRecords_start s)) = newDocIds s"
    by (simp_all add: checkForNewRecords_start_def)
  from a show "PlayNotificationSound
          \<in> set (snd (checkForNewRecords isSilent permission now (Inr newDocs) s))"
    by (simp add: checkForNewRecords_def checkForNewRecords_finish_def st n Let_def
          split: option.split)
  from a show "newDocIds (fst (checkForNewRecords isSilent permission now (Inr newDocs) s))
            = newDocIds s \<union> doc_id ` set newDocs"
    by (simp add: checkForNewRecords_def checkForNewRecords_finish_def st nd n Let_def
          syncFinally_def split: option.split)
qed

theorem initial_load_silent_witness:
  "snd (loadData 1 (Inr [exampleDoc ''1'' ''2024-01-01'' ''Pending'',
                         exampleDoc ''2'' ''2024-01-02'' ''Approved''])
          (initialState 0 {} {})) = [FetchRecords]
   \<and> newDocIds exampleState = {}
   \<and> \<not> isSyncingRef (initialState 0 {} {})
   \<and> documents (initialState 0 {} {}) = []
   \<and> PlayNotificationSound
        \<in> set (snd (checkForNewRecords True (Some Granted) 1
                      (Inr [exampleDoc ''1'' ''2024-01-01'' ''Pending''])
                      (initialState 0 {} {})))
   \<and> newDocIds (fst (checkForNewRecords True (Some Granted) 1
                      (Inr [exampleDoc ''1'' ''2024-01-01'' ''Pending''])
                      (initialState 0 {} {}))) = {''1''}"
proof -
  note t = initial_load_silent
    [of 1 "[exampleDoc ''1'' ''2024-01-01'' ''Pending'',
            exampleDoc ''2'' ''2024-01-02'' ''Approved'']"
        "initialState 0 {} {}" "[exampleDoc ''1'' ''2024-01-01'' ''Pending'']"
        True "Some Granted"]
  have h: "\<not> isSyncingRef (initialState 0 {} {}) \<and> documents (initialState 0 {} {}) = []
           \<and> [exampleDoc ''1'' ''2024-01-01'' ''Pending''] \<noteq> []"
    by (simp add: initialState_def)
  have u: "newDocIds (initialState 0 {} {})
             \<union> doc_id ` set [exampleDoc ''1'' ''2024-01-01'' ''Pending''] = {''1''}"
    by (simp add: initialState_def exampleDoc_fields)
  from t h have a: "snd (loadData 1 (Inr [exampleDoc ''1'' ''2024-01-01'' ''Pending'',
                         exampleDoc ''2'' ''2024-01-02'' ''Approved''])
          (initialState 0 {} {})) = [FetchRecords]"
    and b: "PlayNotificationSound
        \<in> set (snd (checkForNewRecords True (Some Granted) 1
                      (Inr [exampleDoc ''1'' ''2024-01-01'' ''Pending''])
                      (initialState 0 {} {})))"
    and c: "newDocIds (fst (checkForNewRecords True (Some Granted) 1
                      (Inr [exampleDoc ''1'' ''2024-01-01'' ''Pending''])
                      (initialState 0 {} {})))
            = newDocIds (initialState 0 {} {})
                \<union> doc_id ` set [exampleDoc ''1'' ''2024-01-01'' ''Pending'']"
    by blast+
  from h a b c [unfolded u] exampleState_fields(3) show ?thesis
    by blast
qed

text \<open>
  Claim C1 as stated fails. From the startup state, let the initial load fail and let the
  next poll succeed with one record: the snapshot the poll diffs against is still empty,
  so the record counts as arrived; the sound is played, a desktop notification and a
  toast are issued, and the identifier enters the unseen set. The same happens when a
  poll completes while the initial load is still in flight.
\<close>

theorem cold_start_counterexample:
  "documents (fst (loadData 1 (Inl ConnectivityError) (initialState 0 {} {}))) = []
   \<and> snd (checkForNewRecords True (Some Granted) 2
             (Inr [exampleDoc ''1'' ''2024-01-01'' ''Pending''])
             (fst (loadData 1 (Inl ConnectivityError) (initialState 0 {} {}))))
       = [FetchRecords, PlayNotificationSound,
          DesktopNotification ''New Requisition'' ''Requisition #1 from Kitchen received.''
            ''new-items'',
          ToastSuccess ''New Requisition #1 received!'']
   \<and> newDocIds (fst (checkForNewRecords True (Some Granted) 2
             (Inr [exampleDoc ''1'' ''2024-01-01'' ''Pending''])
             (fst (loadData 1 (Inl ConnectivityError) (initialState 0 {} {})))))
       = {''1''}
   \<and> snd (checkForNewRecords True (Some Granted) 2
             (Inr [exampleDoc ''1'' ''2024-01-01'' ''Pending'']) (initialState 0 {} {}))
       = [FetchRecords, PlayNotificationSound,
          DesktopNotification ''New Requisition'' ''Requisition #1 from Kitchen received.''
            ''new-items'',
          ToastSuccess ''New Requisition #1 received!'']"
  by (simp add: checkForNewRecords_def checkForNewRecords_start_def
        checkForNewRecords_finish_def loadData_def initialState_def syncFinally_def
        newItems_def statusChanges_def prevDocsMap_def mapSet_def
        exampleDoc_def newItemsToast_def newItemsNotification_def Let_def)

text \<open>
  Claim C3. In every state in which the in-flight guard \<^verbatim>\<open>isSyncingRef\<close> is set, an
  invocation of the poll is a no-op: it returns the state as it is (snapshot, last-sync
  time, processed set and unseen set included) and issues nothing, no fetch in
  particular; whatever the fetch would have returned plays no part.
\<close>

theorem poll_guard_noop:
  "isSyncingRef s \<Longrightarrow>
     checkForNewRecords_start s = (s, [])
     \<and> checkForNewRecords isSilent permission now result s = (s, [])"
  by (simp add: checkForNewRecords_def checkForNewRecords_start_def)

theorem poll_guard_noop_witness:
  "isSyncingRef (fst (checkForNewRecords_start (initialState 0 {} {})))
   \<and> snd (checkForNewRecords_start (initialState 0 {} {})) = [FetchRecords]
   \<and> checkForNewRecords_start (fst (checkForNewRecords_start (initialState 0 {} {})))
       = (fst (checkForNewRecords_start (initialState 0 {} {})), [])
   \<and> checkForNewRecords False (Some Granted) 5 (Inr [exampleDoc ''1'' ''2024-01-01'' ''Pending''])
         (fst (checkForNewRecords_start (initialState 0 {} {})))
       = (fst (checkForNewRecords_start (initialState 0 {} {})), [])"
proof -
  have g: "isSyncingRef (fst (checkForNewRecords_start (initialState 0 {} {})))"
    by (simp add: checkForNewRecords_start_def initialState_def)
  have f: "snd (checkForNewRecords_start (initialState 0 {} {})) = [FetchRecords]"
    by (simp add: checkForNewRecords_start_def initialState_def)
  from poll_guard_noop [OF g, of False "Some Granted" 5
         "Inr [exampleDoc ''1'' ''2024-01-01'' ''Pending'']"] g f
  show ?thesis by blast
qed

text \<open>
  Claim C4. When the fetch of a poll fails, the state is left as it was but for the
  guard, which is cleared (with the \<^verbatim>\<open>isSyncing\<close> flag): the snapshot and the last-sync
  time are unchanged. The failure is logged, and the error toast is issued exactly when
  the poll was not silent. The same holds for a whole poll cycle entered with the guard
  clear.
\<close>

theorem poll_failure:
  "fst (checkForNewRecords_finish isSilent permission now (Inl err) s)
     = s\<lparr>isSyncing := False, isSyncingRef := False\<rparr>
   \<and> documents (fst (checkForNewRecords_finish isSilent permission now (Inl err) s)) = documents s
   \<and> lastSync (fst (checkForNewRecords_finish isSilent permission now (Inl err) s)) = lastSync s
   \<and> isSyncingRef (fst (checkForNewRecords_finish isSilent permission now (Inl err) s)) = False
   \<and> snd (checkForNewRecords_finish isSilent permission now (Inl err) s)
       = (if isSilent then [ConsoleError ''Background polling failed'']
          else [ConsoleError ''Background polling failed'',
                ToastError ''Sync failed. Check connection.''])
   \<and> (\<not> isSyncingRef s \<longrightarrow>
        fst (checkForNewRecords isSilent permission now (Inl err) s)
          = s\<lparr>isSyncingRef := False, isSyncing := False\<rparr>
        \<and> snd (checkForNewRecords isSilent permission now (Inl err) s)
          = FetchRecords # (if isSilent then [ConsoleError ''Background polling failed'']
          else [ConsoleError ''Background polling failed'',
                ToastError ''Sync failed. Check connection.'']))"
  by (simp add: checkForNewRecords_def checkForNewRecords_start_def
        checkForNewRecords_finish_def syncFinally_def syncCatch_def)

theorem poll_failure_witness:
  "isSyncingRef exampleState = False
   \<and> documents (fst (checkForNewRecords False (Some Granted) 7 (Inl ConnectivityError) exampleState))
       = documents exampleState
   \<and> lastSync (fst (checkForNewRecords False (Some Granted) 7 (Inl ConnectivityError) exampleState))
       = 1
   \<and> isSyncingRef (fst (checkForNewRecords False (Some Granted) 7 (Inl ConnectivityError)
       exampleState)) = False
   \<and> snd (checkForNewRecords False (Some Granted) 7 (Inl ConnectivityError) exampleState)
       = [FetchRecords, ConsoleError ''Background polling failed'',
          ToastError ''Sync failed. Check connection.'']
   \<and> snd (checkForNewRecords True (Some Granted) 7 (Inl ConnectivityError) exampleState)
       = [FetchRecords, ConsoleError ''Background polling failed'']"
proof -
  have g: "\<not> isSyncingRef exampleState"
    by (simp add: exampleState_fields)
  from poll_failure [of False "Some Granted" 7 ConnectivityError exampleState] g
  have a: "fst (checkForNewRecords False (Some Granted) 7 (Inl ConnectivityError) exampleState)
             = exampleState\<lparr>isSyncingRef := False, isSyncing := False\<rparr>"
    and b: "snd (checkForNewRecords False (Some Granted) 7 (Inl ConnectivityError) exampleState)
       = [FetchRecords, ConsoleError ''Background polling failed'',
          ToastError ''Sync failed. Check connection.'']"
    by simp_all
  from poll_failure [of True "Some Granted" 7 ConnectivityError exampleState] g
  have c: "snd (checkForNewRecords True (Some Granted) 7 (Inl ConnectivityError) exampleState)
       = [FetchRecords, ConsoleError ''Background polling failed'']"
    by simp
  show ?thesis
    unfolding a b c by (simp add: exampleState_fields)
qed

lemma count_statusToast: "count_list (map statusToast xs) PlayNotificationSound = 0"
  by (induction xs) (simp_all add: statusToast_def)

lemma count_statusNotification: "count_list (map statusNotification xs) PlayNotificationSound = 0"
  by (induction xs) (simp_all add: statusNotification_def)

lemma count_list_app: "count_list (xs @ ys) y = count_list xs y + count_list ys y"
  by (induction xs) simp_all

text \<open>
  Claim C6. When a fetch of a poll succeeds and the diff has an arrived record or a
  status change, the notification sound is played exactly once, whatever the number of
  arrived records and of status changes, whether the poll is silent, and whatever the
  notification permission is (also where the browser has no notification API); when the
  diff has neither, the sound is not played.
\<close>

theorem sound_once:
  "count_list (snd (checkForNewRecords_finish isSilent permission now (Inr newDocs) s))
     PlayNotificationSound
   = (if newItems (documents s) newDocs \<noteq> [] \<or> statusChanges (documents s) newDocs \<noteq> []
      then 1 else 0)"
  by (simp add: checkForNewRecords_finish_def Let_def syncCatch_def count_list_app
        count_statusToast count_statusNotification newItemsToast_def newItemsNotification_def
        split: option.split)

theorem sound_once_witness:
  "newItems (documents exampleState)
       [exampleDoc ''1'' ''2024-01-01'' ''Approved'', exampleDoc ''2'' ''2024-01-02'' ''Pending'',
        exampleDoc ''3'' ''2024-01-03'' ''Pending'', exampleDoc ''4'' ''2024-01-03'' ''Pending'']
     = [exampleDoc ''3'' ''2024-01-03'' ''Pending'', exampleDoc ''4'' ''2024-01-03'' ''Pending'']
   \<and> statusChanges (documents exampleState)
       [exampleDoc ''1'' ''2024-01-01'' ''Approved'', exampleDoc ''2'' ''2024-01-02'' ''Pending'',
        exampleDoc ''3'' ''2024-01-03'' ''Pending'', exampleDoc ''4'' ''2024-01-03'' ''Pending'']
     = [exampleDoc ''1'' ''2024-01-01'' ''Approved'', exampleDoc ''2'' ''2024-01-02'' ''Pending'']
   \<and> count_list (snd (checkForNewRecords_finish True (Some Granted) 9
        (Inr [exampleDoc ''1'' ''2024-01-01'' ''Approved'', exampleDoc ''2'' ''2024-01-02'' ''Pending'',
              exampleDoc ''3'' ''2024-01-03'' ''Pending'', exampleDoc ''4'' ''2024-01-03'' ''Pending''])
        exampleState)) PlayNotificationSound = 1"
proof -
  have n: "newItems (documents exampleState)
       [exampleDoc ''1'' ''2024-01-01'' ''Approved'', exampleDoc ''2'' ''2024-01-02'' ''Pending'',
        exampleDoc ''3'' ''2024-01-03'' ''Pending'', exampleDoc ''4'' ''2024-01-03'' ''Pending'']
     = [exampleDoc ''3'' ''2024-01-03'' ''Pending'', exampleDoc ''4'' ''2024-01-03'' ''Pending'']"
    by (simp add: exampleState_fields newItems_def prevDocsMap_def mapSet_def exampleDoc_fields)
  have c: "statusChanges (documents exampleState)
       [exampleDoc ''1'' ''2024-01-01'' ''Approved'', exampleDoc ''2'' ''2024-01-02'' ''Pending'',
        exampleDoc ''3'' ''2024-01-03'' ''Pending'', exampleDoc ''4'' ''2024-01-03'' ''Pending'']
     = [exampleDoc ''1'' ''2024-01-01'' ''Approved'', exampleDoc ''2'' ''2024-01-02'' ''Pending'']"
    by (simp add: exampleState_fields statusChanges_def prevDocsMap_def mapSet_def
          exampleDoc_fields)
  from sound_once [of True "Some Granted" 9
         "[exampleDoc ''1'' ''2024-01-01'' ''Approved'', exampleDoc ''2'' ''2024-01-02'' ''Pending'',
           exampleDoc ''3'' ''2024-01-03'' ''Pending'', exampleDoc ''4'' ''2024-01-03'' ''Pending'']"
         exampleState]
  have "count_list (snd (checkForNewRecords_finish True (Some Granted) 9
        (Inr [exampleDoc ''1'' ''2024-01-01'' ''Approved'', exampleDoc ''2'' ''2024-01-02'' ''Pending'',
              exampleDoc ''3'' ''2024-01-03'' ''Pending'', exampleDoc ''4'' ''2024-01-03'' ''Pending''])
        exampleState)) PlayNotificationSound = 1"
    unfolding n c by simp
  with n c show ?thesis by blast
qed

section \<open>Properties of the presentation ordering\<close>

lemma mset_sortInsert: "mset (sortInsert c x ys) = add_mset x (mset ys)"
  by (induction ys) simp_all

lemma mset_array_sort: "mset (array_sort c xs) = mset xs"
  by (induction xs) (simp_all add: array_sort_def mset_sortInsert)

lemma set_sortInsert: "set (sortInsert c x ys) = insert x (set ys)"
  using mset_sortInsert [of c x ys, THEN arg_cong, of set_mset] by simp

lemma set_array_sort: "set (array_sort c xs) = set xs"
  using mset_array_sort [of c xs, THEN arg_cong, of set_mset] by simp

lemma sorted_sortInsert:
  assumes tot: "\<And>a b. a \<in> A \<Longrightarrow> b \<in> A \<Longrightarrow> sortCompare c a b \<le> 0 \<or> sortCompare c b a \<le> 0"
    and trans: "\<And>a b d. a \<in> A \<Longrightarrow> b \<in> A \<Longrightarrow> d \<in> A \<Longrightarrow>
                  sortCompare c a b \<le> 0 \<Longrightarrow> sortCompare c b d \<le> 0 \<Longrightarrow> sortCompare c a d \<le> 0"
    and "x \<in> A" and "set ys \<subseteq> A"
    and "sorted_wrt (\<lambda>a b. sortCompare c a b \<le> 0) ys"
  shows "sorted_wrt (\<lambda>a b. sortCompare c a b \<le> 0) (sortInsert c x ys)"
  using assms(3-5)
proof (induction ys)
  case Nil
  then show ?case by simp
next
  case (Cons y ys)
  show ?case
  proof (cases "sortCompare c x y \<le> 0")
    case True
    have "sortCompare c x z \<le> 0" if "z \<in> set ys" for z
    proof -
      from Cons.prems that have "sortCompare c y z \<le> 0" by simp
      with True show ?thesis
        using trans [of x y z] Cons.prems that by auto
    qed
    with True Cons.prems show ?thesis by simp
  next
    case False
    with tot [of x y] Cons.prems have yx: "sortCompare c y x \<le> 0" by auto
    from Cons have "sorted_wrt (\<lambda>a b. sortCompare c a b \<le> 0) (sortInsert c x ys)"
      by simp
    with False yx Cons.prems show ?thesis
      by (auto simp: set_sortInsert)
  qed
qed

lemma sorted_array_sort:
  assumes tot: "\<And>a b. a \<in> A \<Longrightarrow> b \<in> A \<Longrightarrow> sortCompare c a b \<le> 0 \<or> sortCompare c b a \<le> 0"
    and trans: "\<And>a b d. a \<in> A \<Longrightarrow> b \<in> A \<Longrightarrow> d \<in> A \<Longrightarrow>
                  sortCompare c a b \<le> 0 \<Longrightarrow> sortCompare c b d \<le> 0 \<Longrightarrow> sortCompare c a d \<le> 0"
    and "set xs \<subseteq> A"
  shows "sorted_wrt (\<lambda>a b. sortCompare c a b \<le> 0) (array_sort c xs)"
  using assms(3)
proof (induction xs)
  case Nil
  then show ?case by (simp add: array_sort_def)
next
  case (Cons x xs)
  then have "sorted_wrt (\<lambda>a b. sortCompare c a b \<le> 0) (array_sort c xs)" by simp
  moreover have "set (array_sort c xs) \<subseteq> A"
    using Cons.prems by (simp add: set_array_sort)
  moreover have "x \<in> A" using Cons.prems by simp
  ultimately have "sorted_wrt (\<lambda>a b. sortCompare c a b \<le> 0) (sortInsert c x (array_sort c xs))"
    using sorted_sortInsert [of A c x "array_sort c xs"] tot trans by blast
  then show ?case by (simp add: array_sort_def)
qed

lemma sidebarCompare_specBefore:
  assumes "getTime (date a) \<noteq> None" and "getTime (date b) \<noteq> None"
  shows "(sortCompare (sidebarCompare getTime lc P) a b \<le> 0) = specBefore getTime lc P a b"
proof -
  from assms obtain ta tb where t: "getTime (date a) = Some ta" "getTime (date b) = Some tb"
    by auto
  show ?thesis
    unfolding sortCompare_def sidebarCompare_def specBefore_def Let_def t
    by (cases "isDocProcessed P a"; cases "isDocProcessed P b"; cases "ta = tb") auto
qed

lemma collation_total:
  assumes "consistentCollation lc"
  shows "lc x y \<le> 0 \<or> lc y x \<le> 0"
proof -
  from assms have "(lc y x < 0) = (0 < lc x y)"
    unfolding consistentCollation_def by blast
  then show ?thesis by (cases "0 < lc x y") auto
qed

lemma specBefore_total:
  assumes "consistentCollation lc" and "getTime (date a) \<noteq> None" and "getTime (date b) \<noteq> None"
  shows "specBefore getTime lc P a b \<or> specBefore getTime lc P b a"
proof -
  from assms obtain ta tb where t: "getTime (date a) = Some ta" "getTime (date b) = Some tb"
    by auto
  from collation_total [OF assms(1), of "doc_id a" "doc_id b"] show ?thesis
    unfolding specBefore_def t
    by (cases "isDocProcessed P a"; cases "isDocProcessed P b"; cases "ta = tb") auto
qed

lemma specBefore_trans:
  assumes "consistentCollation lc"
    and "specBefore getTime lc P a b" and "specBefore getTime lc P b d"
  shows "specBefore getTime lc P a d"
proof -
  from assms(1) have tr: "lc x y \<le> 0 \<Longrightarrow> lc y z \<le> 0 \<Longrightarrow> lc x z \<le> 0" for x y z
    unfolding consistentCollation_def by blast
  show ?thesis
  proof (cases "getTime (date a)")
    case None
    with assms(2,3) show ?thesis
      by (auto simp: specBefore_def split: option.splits)
  next
    case a: (Some ta)
    show ?thesis
    proof (cases "getTime (date b)")
      case None
      with assms(2,3) show ?thesis
        by (auto simp: specBefore_def split: option.splits)
    next
      case b: (Some tb)
      show ?thesis
      proof (cases "getTime (date d)")
        case None
        with assms(2,3) show ?thesis
          by (auto simp: specBefore_def split: option.splits)
      next
        case d: (Some td)
        from assms(2,3) tr [of "doc_id a" "doc_id b" "doc_id d"] show ?thesis
          unfolding specBefore_def a b d by auto
      qed
    qed
  qed
qed


lemma codeUnitCompare_sym: "(codeUnitCompare a b < 0) = (0 < codeUnitCompare b a)"
  by (induction a b rule: codeUnitCompare.induct) auto

lemma codeUnitCompare_refl_iff: "(codeUnitCompare a b = 0) = (a = b)"
  by (induction a b rule: codeUnitCompare.induct) auto

lemma codeUnitCompare_trans:
  "codeUnitCompare a b \<le> 0 \<Longrightarrow> codeUnitCompare b c \<le> 0 \<Longrightarrow> codeUnitCompare a c \<le> 0"
proof (induction a b arbitrary: c rule: codeUnitCompare.induct)
  case 1
  then show ?case by simp
next
  case (2 y ys)
  then show ?case by (cases c) auto
next
  case (3 x xs)
  then show ?case by simp
next
  case (4 x xs y ys)
  show ?case
  proof (cases c)
    case Nil
    with 4 show ?thesis by simp
  next
    case (Cons z zs)
    from "4.prems"(1) have p1: "(of_char x :: nat) \<le> of_char y"
      and q1: "(of_char x :: nat) = of_char y \<Longrightarrow> codeUnitCompare xs ys \<le> 0"
      by (simp_all split: if_splits)
    from "4.prems"(2) Cons have p2: "(of_char y :: nat) \<le> of_char z"
      and q2: "(of_char y :: nat) = of_char z \<Longrightarrow> codeUnitCompare ys zs \<le> 0"
      by (simp_all split: if_splits)
    show ?thesis
    proof (cases "(of_char x :: nat) < of_char z")
      case True
      with Cons show ?thesis by simp
    next
      case False
      with p1 p2 have "(of_char x :: nat) = of_char y \<and> (of_char y :: nat) = of_char z"
        by linarith
      then have e: "x = y" "y = z"
        by simp_all
      with q1 q2 have "codeUnitCompare xs zs \<le> 0"
        using "4.IH" [of zs] by simp
      with e Cons show ?thesis by simp
    qed
  qed
qed

lemma consistentCollation_codeUnitCompare: "consistentCollation codeUnitCompare"
  unfolding consistentCollation_def
proof (intro conjI allI impI)
  fix a b
  show "(codeUnitCompare a b < 0) = (0 < codeUnitCompare b a)"
    by (rule codeUnitCompare_sym)
next
  fix a b c
  assume "codeUnitCompare a b \<le> 0 \<and> codeUnitCompare b c \<le> 0"
  then show "codeUnitCompare a c \<le> 0"
    using codeUnitCompare_trans [of a b c] by simp
qed


text \<open>
  Where the comparator is consistent. For a snapshot all of whose dates the engine can
  read, with a consistent collation, the displayed sequence is a rearrangement of the
  snapshot in which every record stands before every later one by the specification's
  rule: records that are not processed (identifier not in the processed set and status
  other than \<^verbatim>\<open>For signing\<close>) come before the processed ones, and on each side records
  are in order of ascending date, those of equal date in ascending order of identifier.
  The specification's example, whose third record has the status the specification
  calls ForSigning (\<^verbatim>\<open>For signing\<close> in the code), orders to A, B, C.
\<close>

lemma sorted_when_dates_parse:
  assumes "\<forall>d \<in> set docs. getTime (date d) \<noteq> None"
    and "consistentCollation localeCompare"
  shows "mset (sidebarDocuments getTime localeCompare processed docs) = mset docs
       \<and> sorted_wrt (specBefore getTime localeCompare processed)
             (sidebarDocuments getTime localeCompare processed docs)
       \<and> map doc_id (sidebarDocuments isoDateTime codeUnitCompare {}
             [exampleDoc ''B'' ''2024-01-02'' ''Pending'',
              exampleDoc ''A'' ''2024-01-01'' ''Pending'',
              exampleDoc ''C'' ''2024-01-01'' ''For signing'']) = [''A'', ''B'', ''C'']"
proof -
  let ?c = "sidebarCompare getTime localeCompare processed"
  let ?A = "{d. getTime (date d) \<noteq> None}"
  have sub: "set docs \<subseteq> ?A" using assms(1) by auto
  have eq: "(sortCompare ?c a b \<le> 0) = specBefore getTime localeCompare processed a b"
    if "a \<in> ?A" and "b \<in> ?A" for a b
    using that by (simp add: sidebarCompare_specBefore)
  have tot: "sortCompare ?c a b \<le> 0 \<or> sortCompare ?c b a \<le> 0"
    if "a \<in> ?A" and "b \<in> ?A" for a b
    using that specBefore_total [OF assms(2), of getTime a b processed] by (simp add: eq)
  have trans: "sortCompare ?c a d \<le> 0"
    if "a \<in> ?A" and "b \<in> ?A" and "d \<in> ?A"
      and "sortCompare ?c a b \<le> 0" and "sortCompare ?c b d \<le> 0" for a b d
    using that specBefore_trans [OF assms(2), of getTime processed a b d] by (simp add: eq)
  have srt: "sorted_wrt (\<lambda>a b. sortCompare ?c a b \<le> 0) (array_sort ?c docs)"
    by (rule sorted_array_sort [of ?A ?c docs]) (use tot trans sub in blast)+
  have mem: "set (array_sort ?c docs) \<subseteq> ?A"
    using sub by (simp add: set_array_sort)
  have "sorted_wrt (specBefore getTime localeCompare processed) (array_sort ?c docs)"
    by (rule sorted_wrt_mono_rel [OF _ srt]) (use mem eq in blast)
  moreover have "mset (array_sort ?c docs) = mset docs"
    by (rule mset_array_sort)
  moreover have "map doc_id (sidebarDocuments isoDateTime codeUnitCompare {}
             [exampleDoc ''B'' ''2024-01-02'' ''Pending'',
              exampleDoc ''A'' ''2024-01-01'' ''Pending'',
              exampleDoc ''C'' ''2024-01-01'' ''For signing'']) = [''A'', ''B'', ''C'']"
    by (simp add: sidebarDocuments_def array_sort_def sidebarCompare_def sortCompare_def
          isDocProcessed_def exampleDoc_def isoDateTime_def digitValue_def daysFromCivil_def)
  ultimately show ?thesis
    by (simp add: sidebarDocuments_def)
qed

lemma isoDateTime_examples:
  "isoDateTime ''2024-01-01'' = Some 1704067200000"
  "isoDateTime ''2024-01-02'' = Some 1704153600000"
  "isoDateTime [] = None"
  by (simp_all add: isoDateTime_def digitValue_def daysFromCivil_def)

lemma sorted_when_dates_parse_example:
  "consistentCollation codeUnitCompare
   \<and> isoDateTime ''2024-01-01'' = Some 1704067200000
   \<and> isoDateTime ''2024-01-02'' = Some 1704153600000
   \<and> sidebarDocuments isoDateTime codeUnitCompare {''A''}
         [exampleDoc ''B'' ''2024-01-02'' ''Pending'',
          exampleDoc ''A'' ''2024-01-01'' ''Pending'',
          exampleDoc ''C'' ''2024-01-01'' ''For signing'']
       = [exampleDoc ''B'' ''2024-01-02'' ''Pending'',
          exampleDoc ''A'' ''2024-01-01'' ''Pending'',
          exampleDoc ''C'' ''2024-01-01'' ''For signing'']
   \<and> sorted_wrt (specBefore isoDateTime codeUnitCompare {''A''})
         (sidebarDocuments isoDateTime codeUnitCompare {''A''}
           [exampleDoc ''B'' ''2024-01-02'' ''Pending'',
            exampleDoc ''A'' ''2024-01-01'' ''Pending'',
            exampleDoc ''C'' ''2024-01-01'' ''For signing''])"
proof -
  have v: "\<forall>d \<in> set [exampleDoc ''B'' ''2024-01-02'' ''Pending'',
                        exampleDoc ''A'' ''2024-01-01'' ''Pending'',
                        exampleDoc ''C'' ''2024-01-01'' ''For signing'']. isoDateTime (date d) \<noteq> None"
    by (simp add: exampleDoc_def isoDateTime_examples)
  have e: "sidebarDocuments isoDateTime codeUnitCompare {''A''}
         [exampleDoc ''B'' ''2024-01-02'' ''Pending'',
          exampleDoc ''A'' ''2024-01-01'' ''Pending'',
          exampleDoc ''C'' ''2024-01-01'' ''For signing'']
       = [exampleDoc ''B'' ''2024-01-02'' ''Pending'',
          exampleDoc ''A'' ''2024-01-01'' ''Pending'',
          exampleDoc ''C'' ''2024-01-01'' ''For signing'']"
    by (simp add: sidebarDocuments_def array_sort_def sidebarCompare_def sortCompare_def
          isDocProcessed_def exampleDoc_def isoDateTime_examples)
  from sorted_when_dates_parse [OF v consistentCollation_codeUnitCompare, of "{''A''}"]
  show ?thesis
    by (simp add: consistentCollation_codeUnitCompare isoDateTime_examples e)
qed

text \<open>
  Claim C5 at a snapshot with a record whose date cannot be read. The claim is for every
  snapshot; the empty string is the date the row mapping gives for a missing date. Of
  three records that are not processed, with dates 2024-01-02, none and 2024-01-01 in
  the order fetched, the comparator returns \<^verbatim>\<open>NaN\<close> against the undated one and the
  sequence is displayed as fetched: the record of 2024-01-02 stands before the record of
  2024-01-01, though both dates are read and the second is the earlier. Two records of
  equal (empty) date fetched as B, A are displayed as B, A, though A is before B in the
  collation. The processed records still come last, and the specification's example, all
  of whose dates are read, orders to A, B, C.
\<close>

theorem sidebar_order_undated:
  "map doc_id (sidebarDocuments isoDateTime codeUnitCompare {}
      [exampleDoc ''3'' ''2024-01-02'' ''Pending'', exampleDoc ''2'' [] ''Pending'',
       exampleDoc ''1'' ''2024-01-01'' ''Pending'']) = [''3'', ''2'', ''1'']
   \<and> isDocProcessed {} (exampleDoc ''3'' ''2024-01-02'' ''Pending'') = False
   \<and> isDocProcessed {} (exampleDoc ''1'' ''2024-01-01'' ''Pending'') = False
   \<and> isoDateTime ''2024-01-02'' = Some 1704153600000
   \<and> isoDateTime ''2024-01-01'' = Some 1704067200000
   \<and> sidebarCompare isoDateTime codeUnitCompare {}
        (exampleDoc ''3'' ''2024-01-02'' ''Pending'') (exampleDoc ''2'' [] ''Pending'') = None
   \<and> sidebarCompare isoDateTime codeUnitCompare {}
        (exampleDoc ''2'' [] ''Pending'') (exampleDoc ''1'' ''2024-01-01'' ''Pending'') = None
   \<and> map doc_id (sidebarDocuments isoDateTime codeUnitCompare {}
        [exampleDoc ''B'' [] ''Pending'', exampleDoc ''A'' [] ''Pending'']) = [''B'', ''A'']
   \<and> codeUnitCompare ''A'' ''B'' = - 1
   \<and> map doc_id (sidebarDocuments isoDateTime codeUnitCompare {''4''}
        [exampleDoc ''4'' ''2024-01-01'' ''Pending'', exampleDoc ''3'' ''2024-01-02'' ''Pending'',
         exampleDoc ''2'' [] ''Pending'', exampleDoc ''1'' ''2024-01-01'' ''Pending''])
       = [''3'', ''2'', ''1'', ''4'']
   \<and> map doc_id (sidebarDocuments isoDateTime codeUnitCompare {}
        [exampleDoc ''B'' ''2024-01-02'' ''Pending'',
         exampleDoc ''A'' ''2024-01-01'' ''Pending'',
         exampleDoc ''C'' ''2024-01-01'' ''For signing'']) = [''A'', ''B'', ''C'']"
  by (simp add: sidebarDocuments_def array_sort_def sidebarCompare_def sortCompare_def
        isDocProcessed_def exampleDoc_def isoDateTime_examples)

text \<open>
  Claim C8 at records whose dates cannot be read. Two distinct records with unique
  identifiers and the empty string as date (what the row mapping gives for a missing
  date) make the comparator return \<^verbatim>\<open>NaN\<close>, which the sort reads as equal, in both
  directions: the identifier is never consulted, and the displayed order of the two is
  the order in which they were fetched. A record without a date between two dated ones
  keeps a later date displayed before an earlier one.
\<close>

theorem sidebar_compare_invalid_date:
  "sidebarCompare isoDateTime codeUnitCompare {}
       (exampleDoc ''B'' [] ''Pending'') (exampleDoc ''A'' [] ''Pending'') = None
   \<and> sortCompare (sidebarCompare isoDateTime codeUnitCompare {})
       (exampleDoc ''B'' [] ''Pending'') (exampleDoc ''A'' [] ''Pending'') = 0
   \<and> sortCompare (sidebarCompare isoDateTime codeUnitCompare {})
       (exampleDoc ''A'' [] ''Pending'') (exampleDoc ''B'' [] ''Pending'') = 0
   \<and> exampleDoc ''B'' [] ''Pending'' \<noteq> exampleDoc ''A'' [] ''Pending''
   \<and> map doc_id (sidebarDocuments isoDateTime codeUnitCompare {}
         [exampleDoc ''B'' [] ''Pending'', exampleDoc ''A'' [] ''Pending'']) = [''B'', ''A'']
   \<and> map doc_id (sidebarDocuments isoDateTime codeUnitCompare {}
         [exampleDoc ''A'' [] ''Pending'', exampleDoc ''B'' [] ''Pending'']) = [''A'', ''B'']
   \<and> map doc_id (sidebarDocuments isoDateTime codeUnitCompare {}
         [exampleDoc ''3'' ''2024-01-02'' ''Pending'', exampleDoc ''2'' [] ''Pending'',
          exampleDoc ''1'' ''2024-01-01'' ''Pending'']) = [''3'', ''2'', ''1'']"
  by (simp add: sidebarDocuments_def array_sort_def sidebarCompare_def sortCompare_def
        isDocProcessed_def exampleDoc_def isoDateTime_examples)

section \<open>Properties of the status transition\<close>

lemma updateStatusToSigning_state:
  "fst (snd (updateStatusToSigning i e s)) =
      s\<lparr>documents := map (\<lambda>d. if doc_id d = i then d\<lparr>status := ''For signing''\<rparr> else d) (documents s),
        processedDocIds := insert i (processedDocIds s)\<rparr>"
  by (simp add: updateStatusToSigning_def Let_def)

lemma updateStatusToSigning_outcome: "fst (updateStatusToSigning i e s) = Inr ()"
  by (simp add: updateStatusToSigning_def updateRequisitionStatus_def Let_def split: sum.split)

lemma updateStatusToSigning_log:
  "snd (snd (updateStatusToSigning i (Inl err) s))
       = [RemoteUpdate i ''For signing'', ConsoleError ''Failed to update status in DB:'']"
  by (simp add: updateStatusToSigning_def updateRequisitionStatus_def Let_def)

lemma signed_status:
  assumes "d \<in> set (map (\<lambda>d. if doc_id d = i then d\<lparr>status := st\<rparr> else d) docs)"
    and "doc_id d = i"
  shows "status d = st"
proof -
  from assms(1) obtain d0 where d0: "d0 \<in> set docs"
    and d: "d = (if doc_id d0 = i then d0\<lparr>status := st\<rparr> else d0)"
    by auto
  show ?thesis
  proof (cases "doc_id d0 = i")
    case True
    with d show ?thesis by simp
  next
    case False
    with d assms(2) show ?thesis by simp
  qed
qed

lemma signed_idem:
  "map (\<lambda>d. if doc_id d = i then d\<lparr>status := st\<rparr> else d)
     (map (\<lambda>d. if doc_id d = i then d\<lparr>status := st\<rparr> else d) docs)
   = map (\<lambda>d. if doc_id d = i then d\<lparr>status := st\<rparr> else d) docs"
  by (induction docs) simp_all

lemma signed_ids:
  "doc_id ` set (map (\<lambda>d. if doc_id d = i then d\<lparr>status := st\<rparr> else d) docs) = doc_id ` set docs"
  by (induction docs) simp_all

text \<open>
  Claim C7. For every identifier present in the snapshot, advancing it to signing twice
  gives the same state as advancing it once, whatever the outcomes of the two remote
  calls: the processed set is the former one with the identifier added (a set, so the
  identifier is in it once), the identifier is still in the snapshot, and every record
  with the identifier has status \<^verbatim>\<open>For signing\<close>.
\<close>

theorem advance_idempotent:
  assumes "i \<in> doc_id ` set (documents s)"
  shows "fst (snd (updateStatusToSigning i e2 (fst (snd (updateStatusToSigning i e1 s)))))
           = fst (snd (updateStatusToSigning i e1 s))
       \<and> processedDocIds (fst (snd (updateStatusToSigning i e2
             (fst (snd (updateStatusToSigning i e1 s)))))) = insert i (processedDocIds s)
       \<and> i \<in> doc_id ` set (documents (fst (snd (updateStatusToSigning i e2
             (fst (snd (updateStatusToSigning i e1 s)))))))
       \<and> (\<forall>d \<in> set (documents (fst (snd (updateStatusToSigning i e2
             (fst (snd (updateStatusToSigning i e1 s))))))).
             doc_id d = i \<longrightarrow> status d = ''For signing'')"
proof -
  have a: "fst (snd (updateStatusToSigning i e2 (fst (snd (updateStatusToSigning i e1 s)))))
           = fst (snd (updateStatusToSigning i e1 s))"
    by (simp add: updateStatusToSigning_state signed_idem del: map_map)
  have b: "processedDocIds (fst (snd (updateStatusToSigning i e1 s))) = insert i (processedDocIds s)"
    by (simp add: updateStatusToSigning_state)
  have c: "i \<in> doc_id ` set (documents (fst (snd (updateStatusToSigning i e1 s))))"
    using assms by (simp add: updateStatusToSigning_state signed_ids del: set_map)
  have d: "\<forall>d \<in> set (documents (fst (snd (updateStatusToSigning i e1 s)))).
             doc_id d = i \<longrightarrow> status d = ''For signing''"
    using signed_status [of _ i "''For signing''" "documents s"]
    by (simp only: updateStatusToSigning_state) (simp del: set_map)
  show ?thesis
    unfolding a by (intro conjI refl b c d)
qed

theorem advance_idempotent_witness:
  "''1'' \<in> doc_id ` set (documents exampleState)
   \<and> fst (snd (updateStatusToSigning ''1'' (Inr ())
          (fst (snd (updateStatusToSigning ''1'' (Inr ()) exampleState)))))
       = fst (snd (updateStatusToSigning ''1'' (Inr ()) exampleState))
   \<and> documents (fst (snd (updateStatusToSigning ''1'' (Inr ()) exampleState)))
       = [exampleDoc ''1'' ''2024-01-01'' ''For signing'',
          exampleDoc ''2'' ''2024-01-02'' ''Approved'']
   \<and> processedDocIds (fst (snd (updateStatusToSigning ''1'' (Inr ()) exampleState))) = {''1''}"
proof (intro conjI)
  show m: "''1'' \<in> doc_id ` set (documents exampleState)"
    by (simp add: exampleState_fields exampleDoc_fields)
  show "fst (snd (updateStatusToSigning ''1'' (Inr ())
          (fst (snd (updateStatusToSigning ''1'' (Inr ()) exampleState)))))
       = fst (snd (updateStatusToSigning ''1'' (Inr ()) exampleState))"
    by (rule advance_idempotent [OF m, of "Inr ()" "Inr ()", THEN conjunct1])
  show "documents (fst (snd (updateStatusToSigning ''1'' (Inr ()) exampleState)))
       = [exampleDoc ''1'' ''2024-01-01'' ''For signing'',
          exampleDoc ''2'' ''2024-01-02'' ''Approved'']"
    by (simp add: updateStatusToSigning_state exampleState_fields exampleDoc_fields)
  show "processedDocIds (fst (snd (updateStatusToSigning ''1'' (Inr ()) exampleState))) = {''1''}"
    by (simp add: updateStatusToSigning_state exampleState_fields)
qed

text \<open>
  Claim C9. For every identifier, when the remote status update fails, the remote call
  and the whole workflow still complete normally (nothing is thrown), the failure is
  logged, and the state is the one a successful update leaves: the identifier is in the
  processed set and every record with the identifier has status \<^verbatim>\<open>For signing\<close>.
\<close>

theorem mutation_failure_keeps_local_commit:
  "fst (updateRequisitionStatus i st (Inl err)) = Inr ()
   \<and> fst (updateStatusToSigning i (Inl err) s) = Inr ()
   \<and> fst (snd (updateStatusToSigning i (Inl err) s))
       = fst (snd (updateStatusToSigning i (Inr ()) s))
   \<and> snd (snd (updateStatusToSigning i (Inl err) s))
       = [RemoteUpdate i ''For signing'', ConsoleError ''Failed to update status in DB:'']
   \<and> i \<in> processedDocIds (fst (snd (updateStatusToSigning i (Inl err) s)))
   \<and> (\<forall>d \<in> set (documents (fst (snd (updateStatusToSigning i (Inl err) s)))).
         doc_id d = i \<longrightarrow> status d = ''For signing'')"
proof (intro conjI)
  show "fst (updateRequisitionStatus i st (Inl err)) = Inr ()"
    by (simp add: updateRequisitionStatus_def)
  show "fst (updateStatusToSigning i (Inl err) s) = Inr ()"
    by (rule updateStatusToSigning_outcome)
  show "fst (snd (updateStatusToSigning i (Inl err) s))
       = fst (snd (updateStatusToSigning i (Inr ()) s))"
    by (simp only: updateStatusToSigning_state)
  show "snd (snd (updateStatusToSigning i (Inl err) s))
       = [RemoteUpdate i ''For signing'', ConsoleError ''Failed to update status in DB:'']"
    by (rule updateStatusToSigning_log)
  show "i \<in> processedDocIds (fst (snd (updateStatusToSigning i (Inl err) s)))"
    by (simp add: updateStatusToSigning_state)
  show "\<forall>d \<in> set (documents (fst (snd (updateStatusToSigning i (Inl err) s)))).
         doc_id d = i \<longrightarrow> status d = ''For signing''"
    using signed_status [of _ i "''For signing''" "documents s"]
    by (simp only: updateStatusToSigning_state) (simp del: set_map)
qed

theorem mutation_failure_keeps_local_commit_witness:
  "fst (updateStatusToSigning ''1'' (Inl ConnectivityError) exampleState) = Inr ()
   \<and> documents (fst (snd (updateStatusToSigning ''1'' (Inl ConnectivityError) exampleState)))
       = [exampleDoc ''1'' ''2024-01-01'' ''For signing'',
          exampleDoc ''2'' ''2024-01-02'' ''Approved'']
   \<and> processedDocIds (fst (snd (updateStatusToSigning ''1'' (Inl ConnectivityError) exampleState)))
       = {''1''}"
proof (intro conjI)
  show "fst (updateStatusToSigning ''1'' (Inl ConnectivityError) exampleState) = Inr ()"
    by (rule mutation_failure_keeps_local_commit
          [of "''1''" "''For signing''" ConnectivityError exampleState,
           THEN conjunct2, THEN conjunct1])
  show "documents (fst (snd (updateStatusToSigning ''1'' (Inl ConnectivityError) exampleState)))
       = [exampleDoc ''1'' ''2024-01-01'' ''For signing'',
          exampleDoc ''2'' ''2024-01-02'' ''Approved'']"
    by (simp add: updateStatusToSigning_state exampleState_fields exampleDoc_fields)
  show "processedDocIds (fst (snd (updateStatusToSigning ''1'' (Inl ConnectivityError) exampleState)))
       = {''1''}"
    by (simp add: updateStatusToSigning_state exampleState_fields)
qed

section \<open>Properties of the row mapping\<close>

text \<open>
  Claim C10. The record mapped from a database row has a status among \<^verbatim>\<open>Approved\<close>,
  \<^verbatim>\<open>Pending\<close>, \<^verbatim>\<open>Processing\<close> and \<^verbatim>\<open>For signing\<close>: a row whose status is missing, is
  not a string or is a string outside the four has status \<^verbatim>\<open>Pending\<close>, and a row whose
  status is one of the four keeps it. When the query succeeds, the records returned are
  the mapped rows, so each has such a status; and when the records of the fallback
  service have such statuses (as their declared type says), so has every record that
  \<^verbatim>\<open>fetchDatabaseRecords\<close> returns.
\<close>

theorem row_status_enum:
  "status (mapRow r) \<in> set statusValues
   \<and> (r ''status'' \<notin> Text ` set statusValues \<longrightarrow> status (mapRow r) = ''Pending'')
   \<and> (r ''status'' \<in> Text ` set statusValues \<longrightarrow> Text (status (mapRow r)) = r ''status'')
   \<and> fetchDatabaseRecords (Inr rows) mock = Inr (map mapRow rows)
   \<and> (\<forall>d \<in> set (map mapRow rows). status d \<in> set statusValues)
   \<and> ((\<forall>mockDocs. mock = Inr mockDocs \<longrightarrow> (\<forall>d \<in> set mockDocs. status d \<in> set statusValues))
        \<longrightarrow> (\<forall>docs. fetchDatabaseRecords queried mock = Inr docs
               \<longrightarrow> (\<forall>d \<in> set docs. status d \<in> set statusValues)))"
proof -
  have a: "status (mapRow x) \<in> set statusValues" for x
    by (cases "x ''status''") (simp_all add: mapRow_def statusValues_def)
  have b: "r ''status'' \<notin> Text ` set statusValues \<longrightarrow> status (mapRow r) = ''Pending''"
    by (cases "r ''status''") (auto simp: mapRow_def)
  have c: "r ''status'' \<in> Text ` set statusValues \<longrightarrow> Text (status (mapRow r)) = r ''status''"
    by (cases "r ''status''") (auto simp: mapRow_def)
  have d: "fetchDatabaseRecords (Inr rows) mock = Inr (map mapRow rows)"
    by (simp add: fetchDatabaseRecords_def)
  have e: "\<forall>d \<in> set (map mapRow rows). status d \<in> set statusValues"
    using a by auto
  have f: "(\<forall>mockDocs. mock = Inr mockDocs \<longrightarrow> (\<forall>d \<in> set mockDocs. status d \<in> set statusValues))
        \<longrightarrow> (\<forall>docs. fetchDatabaseRecords queried mock = Inr docs
               \<longrightarrow> (\<forall>d \<in> set docs. status d \<in> set statusValues))"
    using a by (auto simp: fetchDatabaseRecords_def split: sum.splits if_splits)
  from a b c d e f show ?thesis by blast
qed

theorem row_status_enum_witness:
  "status (mapRow ((\<lambda>c. Undefined)(''id'' := Other True ''12'', ''status'' := Text ''Rejected'')))
     = ''Pending''
   \<and> status (mapRow ((\<lambda>c. Undefined)(''id'' := Other True ''13''))) = ''Pending''
   \<and> status (mapRow ((\<lambda>c. Undefined)(''id'' := Other True ''14'', ''status'' := Other True ''1'')))
     = ''Pending''
   \<and> status (mapRow ((\<lambda>c. Undefined)(''id'' := Other True ''15'', ''status'' := Text ''For signing'')))
     = ''For signing''
   \<and> map status (projr (fetchDatabaseRecords
        (Inr [(\<lambda>c. Undefined)(''id'' := Other True ''12'', ''status'' := Text ''Rejected'')])
        (Inl ConnectivityError))) = [''Pending'']
   \<and> status (exampleDoc ''1'' ''2024-01-01'' ''Approved'') \<in> set statusValues
   \<and> fetchDatabaseRecords (Inl ConnectivityError)
         (Inr [exampleDoc ''1'' ''2024-01-01'' ''Approved''])
       = Inr [exampleDoc ''1'' ''2024-01-01'' ''Approved'']"
proof -
  note t = row_status_enum
    [of "(\<lambda>c. Undefined)(''id'' := Other True ''12'', ''status'' := Text ''Rejected'')"
        "[(\<lambda>c. Undefined)(''id'' := Other True ''12'', ''status'' := Text ''Rejected'')]"
        "Inl ConnectivityError" "Inl ConnectivityError"]
  have h: "((\<lambda>c. Undefined)(''id'' := Other True ''12'', ''status'' := Text ''Rejected'')) ''status''
             \<notin> Text ` set statusValues"
    by (simp add: statusValues_def image_iff)
  from t h have a: "status (mapRow ((\<lambda>c. Undefined)(''id'' := Other True ''12'',
                       ''status'' := Text ''Rejected''))) = ''Pending''"
    by blast
  from t have "fetchDatabaseRecords
        (Inr [(\<lambda>c. Undefined)(''id'' := Other True ''12'', ''status'' := Text ''Rejected'')])
        (Inl ConnectivityError)
      = Inr (map mapRow [(\<lambda>c. Undefined)(''id'' := Other True ''12'', ''status'' := Text ''Rejected'')])"
    by blast
  with a have b: "map status (projr (fetchDatabaseRecords
        (Inr [(\<lambda>c. Undefined)(''id'' := Other True ''12'', ''status'' := Text ''Rejected'')])
        (Inl ConnectivityError))) = [''Pending'']"
    by simp
  have c: "status (mapRow ((\<lambda>c. Undefined)(''id'' := Other True ''13''))) = ''Pending''"
    "status (mapRow ((\<lambda>c. Undefined)(''id'' := Other True ''14'', ''status'' := Other True ''1'')))
       = ''Pending''"
    "status (mapRow ((\<lambda>c. Undefined)(''id'' := Other True ''15'', ''status'' := Text ''For signing'')))
       = ''For signing''"
    by (simp_all add: mapRow_def statusValues_def)
  have d: "status (exampleDoc ''1'' ''2024-01-01'' ''Approved'') \<in> set statusValues"
    by (simp add: exampleDoc_fields statusValues_def)
  have e: "fetchDatabaseRecords (Inl ConnectivityError)
         (Inr [exampleDoc ''1'' ''2024-01-01'' ''Approved''])
       = Inr [exampleDoc ''1'' ''2024-01-01'' ''Approved'']"
    by (simp add: fetchDatabaseRecords_def)
  from a b c d e show ?thesis by blast
qed

end
